theory Spec2Isabelle
  imports Main
begin

section \<open>JavaScript values and computations\<close>

text \<open>
  The values the two modules handle. \<open>VNull\<close> and \<open>VUndefined\<close> are the two values that
  \<^verbatim>\<open>value == null\<close> accepts. An instance of \<^verbatim>\<open>Error\<close> (or of a subclass) is \<open>VError\<close>
  with its class and message. A plain object lives in the store and is referred to by its
  address (\<open>VRef\<close>). An instance of \<^verbatim>\<open>Optional\<close> is immutable (its only field is
  private and never assigned after the constructor), so it is a value: \<open>VOptional\<close>.
  Numbers are the integers.
\<close>

type_synonym addr = nat

datatype ErrorClass = Error | TypeError | OptionalValueMissingError

datatype val =
    VNull
  | VUndefined
  | VBool bool
  | VNum int
  | VStr string
  | VError ErrorClass string
  | VRef addr
  | VOptional Optional
and Optional =
    PresentOptional val
  | AbsentOptional

text \<open>
  A computation runs in the caller's state \<open>'s\<close> (whatever a callback can observe or
  change: a call counter, a log), and either returns (\<open>Inr\<close>) or throws a value
  (\<open>Inl\<close>). A callback of the caller is a function into such computations, so an
  invocation of it is visible in the state it leaves.
\<close>

type_synonym ('s, 'a) js = "'s \<Rightarrow> (val + 'a) \<times> 's"

definition returns :: "'a \<Rightarrow> ('s, 'a) js" where
  "returns x s = (Inr x, s)"

definition throws :: "val \<Rightarrow> ('s, 'a) js" where
  "throws e s = (Inl e, s)"

text \<open>Sequencing: a throw of the first computation skips the second.\<close>

definition andThen :: "('s, 'a) js \<Rightarrow> ('a \<Rightarrow> ('s, 'b) js) \<Rightarrow> ('s, 'b) js" where
  "andThen m k s = (case m s of (Inl e, s') \<Rightarrow> (Inl e, s') | (Inr x, s') \<Rightarrow> k x s')"

text \<open>\<^verbatim>\<open>value == null\<close>\<close>

fun eq_null :: "val \<Rightarrow> bool" where
  "eq_null VNull = True"
| "eq_null VUndefined = True"
| "eq_null _ = False"

text \<open>\<^verbatim>\<open>value instanceof Optional\<close>\<close>

fun instanceof_Optional :: "val \<Rightarrow> bool" where
  "instanceof_Optional (VOptional _) = True"
| "instanceof_Optional _ = False"

text \<open>\<^verbatim>\<open>err instanceof Error\<close>\<close>

fun instanceof_Error :: "val \<Rightarrow> bool" where
  "instanceof_Error (VError _ _) = True"
| "instanceof_Error _ = False"

section \<open>Optional\<close>

subsection \<open>The static constructors\<close>

text \<open>
  \<^verbatim>\<open>
  static of = (value) => {
    if (value instanceof Optional) return value;
    return value == null ? new AbsentOptional() : new PresentOptional(value);
  };
  \<close>
\<close>

fun Optional_of :: "val \<Rightarrow> Optional" where
  "Optional_of (VOptional opt) = opt"
| "Optional_of value = (if eq_null value then AbsentOptional else PresentOptional value)"

definition Optional_fromJSON :: "val \<Rightarrow> Optional" where
  "Optional_fromJSON data = Optional_of data"

definition Optional_empty :: Optional where
  "Optional_empty = AbsentOptional"

subsection \<open>The methods of PresentOptional and AbsentOptional\<close>

text \<open>
  Each method is one function on the receiver; its first equation is the method of
  \<^verbatim>\<open>PresentOptional\<close>, its second the method of \<^verbatim>\<open>AbsentOptional\<close>.
\<close>

fun isPresent :: "Optional \<Rightarrow> bool" where
  "isPresent (PresentOptional value) = True"
| "isPresent AbsentOptional = False"

fun isAbsent :: "Optional \<Rightarrow> bool" where
  "isAbsent (PresentOptional value) = False"
| "isAbsent AbsentOptional = True"

fun Optional_filter :: "Optional \<Rightarrow> (val \<Rightarrow> ('s, bool) js) \<Rightarrow> ('s, Optional) js" where
  "Optional_filter (PresentOptional value) transform =
     andThen (transform value)
       (\<lambda>keep. returns (if keep then PresentOptional value else AbsentOptional))"
| "Optional_filter AbsentOptional transform = returns AbsentOptional"

fun Optional_map :: "Optional \<Rightarrow> (val \<Rightarrow> ('s, val) js) \<Rightarrow> ('s, Optional) js" where
  "Optional_map (PresentOptional value) transform =
     andThen (transform value) (\<lambda>x. returns (Optional_of x))"
| "Optional_map AbsentOptional transform = returns AbsentOptional"

fun Optional_flatMap :: "Optional \<Rightarrow> (val \<Rightarrow> ('s, Optional) js) \<Rightarrow> ('s, Optional) js" where
  "Optional_flatMap (PresentOptional value) transform = transform value"
| "Optional_flatMap AbsentOptional transform = returns AbsentOptional"

fun orElse :: "Optional \<Rightarrow> val \<Rightarrow> val" where
  "orElse (PresentOptional value) other = value"
| "orElse AbsentOptional other = other"

fun orGet :: "Optional \<Rightarrow> ('s, val) js \<Rightarrow> ('s, val) js" where
  "orGet (PresentOptional value) supplier = returns value"
| "orGet AbsentOptional supplier = supplier"

text \<open>
  \<^verbatim>\<open>
  orThrow(errThrower) {            // AbsentOptional
    const err = errThrower();
    if (err instanceof Error) { throw err; }
    else { throw TypeError("Optional.orThrow callback did not throw or return an error"); }
  }
  \<close>
\<close>

definition orThrow_message :: string where
  "orThrow_message = ''Optional.orThrow callback did not throw or return an error''"

fun orThrow :: "Optional \<Rightarrow> ('s, val) js \<Rightarrow> ('s, val) js" where
  "orThrow (PresentOptional value) errThrower = returns value"
| "orThrow AbsentOptional errThrower =
     andThen errThrower
       (\<lambda>err. if instanceof_Error err then throws err
              else throws (VError TypeError orThrow_message))"

fun toJSON :: "Optional \<Rightarrow> string \<Rightarrow> val" where
  "toJSON (PresentOptional value) key = value"
| "toJSON AbsentOptional key = VNull"

fun asJSON :: "Optional \<Rightarrow> val" where
  "asJSON (PresentOptional value) = value"
| "asJSON AbsentOptional = VNull"

definition get_message :: string where
  "get_message =
     ''.get() was called on an optional that had no value. Add a check before unwrapping.''"

fun get :: "Optional \<Rightarrow> val + val" where
  "get (PresentOptional value) = Inr value"
| "get AbsentOptional = Inl (VError OptionalValueMissingError get_message)"


subsection \<open>flatMapAsync\<close>

text \<open>
  A pending computation is modelled by its eventual settlement: it resolves with a value,
  rejects with a reason, or stays pending for ever. \<^verbatim>\<open>then\<close> with a fulfilment
  callback only, as \<^verbatim>\<open>flatMapAsync\<close> calls it, passes the resolved value through the
  callback and leaves a rejection as it is. When the callback runs is not modelled.
\<close>

datatype 'a Promise = Resolved 'a | Rejected val | Pending

fun Promise_then :: "'a Promise \<Rightarrow> ('a \<Rightarrow> 'b) \<Rightarrow> 'b Promise" where
  "Promise_then (Resolved v) onfulfilled = Resolved (onfulfilled v)"
| "Promise_then (Rejected e) onfulfilled = Rejected e"
| "Promise_then Pending onfulfilled = Pending"

text \<open>
  The module \<^verbatim>\<open>./AsyncOptional\<close> is imported by the sources but is not among them. The
  three entry points that \<^verbatim>\<open>flatMapAsync\<close> uses are therefore parameters, for any type
  \<open>'ao\<close> of asynchronous optionals: \<^verbatim>\<open>PresentAsyncOptional.fromPromise\<close>,
  \<^verbatim>\<open>new AbsentAsyncOptional()\<close>, and the \<^verbatim>\<open>then\<close> method of an AsyncOptional, which
  hands the Optional it resolves to to its callback.
\<close>

datatype 'ao AsyncOptionalModule =
  AsyncOptionalModule
    (fromPromise: "val Promise \<Rightarrow> 'ao")
    (newAbsentAsyncOptional: "'ao")
    (thenAsyncOptional: "'ao \<Rightarrow> (Optional \<Rightarrow> val) \<Rightarrow> val Promise")

text \<open>
  What the transform of \<^verbatim>\<open>flatMapAsync\<close> returns:
  \<^verbatim>\<open>AsyncOptional<X> | Promise<Optional<X>>\<close>. The code calls \<^verbatim>\<open>.then\<close> on either.
\<close>

datatype 'ao AsyncResult = AnAsyncOptional 'ao | APromise "Optional Promise"

fun callThen ::
  "'ao AsyncOptionalModule \<Rightarrow> 'ao AsyncResult \<Rightarrow> (Optional \<Rightarrow> val) \<Rightarrow> val Promise" where
  "callThen A (AnAsyncOptional a) onfulfilled = thenAsyncOptional A a onfulfilled"
| "callThen A (APromise p) onfulfilled = Promise_then p onfulfilled"

text \<open>
  \<^verbatim>\<open>
  flatMapAsync(transform) {        // PresentOptional
    return PresentAsyncOptional.fromPromise(
      (transform(this.value) as any).then((v: any) => v.orElse(null)));
  }
  flatMapAsync() { return new AbsentAsyncOptional(); }   // AbsentOptional
  \<close>
\<close>

fun flatMapAsync ::
  "'ao AsyncOptionalModule \<Rightarrow> Optional \<Rightarrow> (val \<Rightarrow> ('s, 'ao AsyncResult) js) \<Rightarrow> ('s, 'ao) js"
  where
  "flatMapAsync A (PresentOptional value) transform =
     andThen (transform value)
       (\<lambda>r. returns (fromPromise A (callThen A r (\<lambda>v. orElse v VNull))))"
| "flatMapAsync A AbsentOptional transform = returns (newAbsentAsyncOptional A)"

section \<open>EntitySerializer.mapOut\<close>

text \<open>
  Plain objects are dictionaries of own properties, held in a store by address, so that
  the target and the serializer's instance may be one and the same object. Reading a
  property that an object does not have gives \<^verbatim>\<open>undefined\<close>; assigning creates or
  overwrites the property. Accessors, prototypes and frozen objects are not modelled.
\<close>

type_synonym object = "string \<rightharpoonup> val"
type_synonym store = "addr \<Rightarrow> object"

definition getProp :: "object \<Rightarrow> string \<Rightarrow> val" where
  "getProp obj k = (case obj k of None \<Rightarrow> VUndefined | Some v \<Rightarrow> v)"

definition setProp :: "store \<Rightarrow> addr \<Rightarrow> string \<Rightarrow> val \<Rightarrow> store" where
  "setProp h a k v = h(a := (h a)(k \<mapsto> v))"

text \<open>
  \<^verbatim>\<open>mapOut\<close> runs on the store together with the caller's state. The mapper functions
  of the caller are closures: they run on the same store and state, and may read and
  write both.
\<close>

definition readProp :: "addr \<Rightarrow> string \<Rightarrow> (store \<times> 's, val) js" where
  "readProp a k = (\<lambda>(h, u). (Inr (getProp (h a) k), (h, u)))"

definition assignProp :: "addr \<Rightarrow> string \<Rightarrow> val \<Rightarrow> (store \<times> 's, unit) js" where
  "assignProp a k v = (\<lambda>(h, u). (Inr (), (setProp h a k v, u)))"

text \<open>
  \<^verbatim>\<open>MapOutArg<T, O> = SameTypeFields<T, O> | MapDirect<T, O, ..> | MapIndirect<T, O, .., ..>\<close>:
  a field name, \<^verbatim>\<open>{field, map}\<close>, or \<^verbatim>\<open>{from, map: {to, with}}\<close>. The three tests below
  are tried in this order, so an object with \<^verbatim>\<open>field\<close> and \<^verbatim>\<open>map\<close> is a direct map
  whatever else it carries.
\<close>

datatype 's MapOutArg =
    SameTypeField (name: string)
  | MapDirect (field: string) (map_fn: "val \<Rightarrow> (store \<times> 's, val) js")
  | MapIndirect (from_field: string) (to_field: string)
      (with_fn: "val \<Rightarrow> (store \<times> 's, val) js")

text \<open>\<^verbatim>\<open>typeof f === "string"\<close>\<close>

fun isSameTypeMap :: "'s MapOutArg \<Rightarrow> bool" where
  "isSameTypeMap (SameTypeField _) = True"
| "isSameTypeMap _ = False"

text \<open>\<^verbatim>\<open>"field" in f && "map" in f\<close>\<close>

fun isDirectMap :: "'s MapOutArg \<Rightarrow> bool" where
  "isDirectMap (MapDirect _ _) = True"
| "isDirectMap _ = False"

text \<open>\<^verbatim>\<open>"from" in f && "map" in f\<close>\<close>

fun isIndirectMap :: "'s MapOutArg \<Rightarrow> bool" where
  "isIndirectMap (MapIndirect _ _ _) = True"
| "isIndirectMap _ = False"

datatype EntitySerializer = EntitySerializer (the_instance: addr)

text \<open>\<^verbatim>\<open>Array.prototype.forEach\<close>: a throw of the callback ends the loop.\<close>

fun forEach :: "'a list \<Rightarrow> ('a \<Rightarrow> ('s, unit) js) \<Rightarrow> ('s, unit) js" where
  "forEach [] f = returns ()"
| "forEach (x # xs) f = andThen (f x) (\<lambda>_. forEach xs f)"

text \<open>
  The body of the loop of \<^verbatim>\<open>performMapOut\<close>:
  \<^verbatim>\<open>
  if (isSameTypeMap(mapping)) {
    target[mapping] = instance[mapping];
  } else if (isDirectMap(mapping)) {
    const {field, map} = mapping;
    target[field] = map(instance[field]);
  } else if (isIndirectMap(mapping)) {
    const {map, from} = mapping;
    const {with: mapper, to} = map;
    target[to] = mapper(instance[from]);
  }
  \<close>
\<close>

definition performMapOut_each ::
  "addr \<Rightarrow> addr \<Rightarrow> 's MapOutArg \<Rightarrow> (store \<times> 's, unit) js" where
  "performMapOut_each inst target mapping =
     (if isSameTypeMap mapping then
        andThen (readProp inst (name mapping)) (\<lambda>v. assignProp target (name mapping) v)
      else if isDirectMap mapping then
        andThen (readProp inst (field mapping)) (\<lambda>v.
        andThen (map_fn mapping v) (\<lambda>w.
        assignProp target (field mapping) w))
      else if isIndirectMap mapping then
        andThen (readProp inst (from_field mapping)) (\<lambda>v.
        andThen (with_fn mapping v) (\<lambda>w.
        assignProp target (to_field mapping) w))
      else returns ())"

definition performMapOut ::
  "EntitySerializer \<Rightarrow> addr \<Rightarrow> 's MapOutArg list \<Rightarrow> (store \<times> 's, addr) js" where
  "performMapOut this target mappings =
     andThen (forEach mappings (performMapOut_each (the_instance this) target))
       (\<lambda>_. returns target)"

definition mapOut ::
  "EntitySerializer \<Rightarrow> addr \<Rightarrow> 's MapOutArg list \<Rightarrow> (store \<times> 's, addr) js" where
  "mapOut this target fields = performMapOut this target fields"

section \<open>Notions the properties are stated with\<close>

text \<open>
  A call-recording stub: a callback that computes \<open>f\<close> and appends its argument to the
  list of calls that is the caller's state. The length of the list counts the invocations.
\<close>

definition recording :: "(val \<Rightarrow> 'a) \<Rightarrow> val \<Rightarrow> (val list, 'a) js" where
  "recording f x calls = (Inr (f x), calls @ [x])"

text \<open>The invariant of the data model: the value a present optional holds is not null-equivalent.\<close>

fun Present_invariant :: "Optional \<Rightarrow> bool" where
  "Present_invariant (PresentOptional value) = (\<not> eq_null value)"
| "Present_invariant AbsentOptional = True"

text \<open>A value that, where it is an Optional instance, satisfies the invariant.\<close>

fun respects_invariant :: "val \<Rightarrow> bool" where
  "respects_invariant (VOptional opt) = Present_invariant opt"
| "respects_invariant _ = True"

text \<open>The target field that a mapping names: its own name, its \<^verbatim>\<open>field\<close>, or its \<^verbatim>\<open>to\<close>.\<close>

fun targetField :: "'s MapOutArg \<Rightarrow> string" where
  "targetField (SameTypeField k) = k"
| "targetField (MapDirect k f) = k"
| "targetField (MapIndirect k t f) = t"

text \<open>The mapper functions that a mapping carries: none, its \<^verbatim>\<open>map\<close>, or its \<^verbatim>\<open>with\<close>.\<close>

fun mappers :: "'s MapOutArg \<Rightarrow> (val \<Rightarrow> (store \<times> 's, val) js) list" where
  "mappers (SameTypeField k) = []"
| "mappers (MapDirect k f) = [f]"
| "mappers (MapIndirect k t f) = [f]"

section \<open>Computations\<close>

lemma andThen_Inr [simp]: "m s = (Inr x, s') \<Longrightarrow> andThen m k s = k x s'"
  by (simp add: andThen_def)

lemma andThen_Inl [simp]: "m s = (Inl e, s') \<Longrightarrow> andThen m k s = (Inl e, s')"
  by (simp add: andThen_def)

lemma andThen_returns [simp]: "andThen (returns x) k s = k x s"
  by (simp add: andThen_def returns_def)

lemma snd_andThen_returns [simp]: "snd (andThen m (\<lambda>x. returns (k x)) s) = snd (m s)"
  by (simp add: andThen_def returns_def split: prod.splits sum.splits)

lemma snd_andThen_throws [simp]:
  "snd (andThen m (\<lambda>x. if c x then throws (k x) else throws (h x)) s) = snd (m s)"
  by (simp add: andThen_def throws_def split: prod.splits sum.splits)

section \<open>Optional.of\<close>

text \<open>
  C1 (as amended). \<^verbatim>\<open>Optional.of\<close> hands an argument that is itself an Optional back
  unchanged, so the classification by nullness is a statement about the other values:
  for every value \<open>v\<close> that is not an instance of Optional, if \<open>v\<close> is not
  null-equivalent then \<^verbatim>\<open>Optional.of(v)\<close> is present and \<^verbatim>\<open>get()\<close> returns exactly
  \<open>v\<close>, and if \<open>v\<close> is null-equivalent then \<^verbatim>\<open>Optional.of(v)\<close> is absent and
  \<^verbatim>\<open>get()\<close> throws the OptionalValueMissingError. An argument that is an Optional
  instance is the result, whether present or absent.
\<close>

theorem Optional_of_classifies:
  "(\<not> instanceof_Optional v \<and> \<not> eq_null v \<longrightarrow>
      isPresent (Optional_of v) \<and> \<not> isAbsent (Optional_of v) \<and> get (Optional_of v) = Inr v)
   \<and> (eq_null v \<longrightarrow>
      \<not> instanceof_Optional v \<and> isAbsent (Optional_of v) \<and> \<not> isPresent (Optional_of v)
      \<and> get (Optional_of v) = Inl (VError OptionalValueMissingError get_message))
   \<and> Optional_of (VOptional opt) = opt
   \<and> (instanceof_Optional v \<longrightarrow> VOptional (Optional_of v) = v)"
  by (cases v) simp_all

theorem Optional_of_classifies_witness:
  "\<not> instanceof_Optional (VNum 5) \<and> \<not> eq_null (VNum 5)
   \<and> isPresent (Optional_of (VNum 5)) \<and> get (Optional_of (VNum 5)) = Inr (VNum 5)
   \<and> eq_null VNull
   \<and> isAbsent (Optional_of VNull)
   \<and> get (Optional_of VNull) = Inl (VError OptionalValueMissingError get_message)
   \<and> instanceof_Optional (VOptional (PresentOptional (VNum 7)))
   \<and> Optional_of (VOptional (PresentOptional (VNum 7))) = PresentOptional (VNum 7)
   \<and> instanceof_Optional (VOptional AbsentOptional)
   \<and> Optional_of (VOptional AbsentOptional) = AbsentOptional"
proof -
  note a = Optional_of_classifies [of "VNum 5" AbsentOptional]
  note b = Optional_of_classifies [of VNull AbsentOptional]
  note c = Optional_of_classifies [of "VOptional (PresentOptional (VNum 7))"
      "PresentOptional (VNum 7)"]
  have 1: "isPresent (Optional_of (VNum 5)) \<and> get (Optional_of (VNum 5)) = Inr (VNum 5)"
    using a [THEN conjunct1] by simp
  have 2: "isAbsent (Optional_of VNull)
      \<and> get (Optional_of VNull) = Inl (VError OptionalValueMissingError get_message)"
    using b [THEN conjunct2, THEN conjunct1] by simp
  have 3: "Optional_of (VOptional (PresentOptional (VNum 7))) = PresentOptional (VNum 7)"
    using c [THEN conjunct2, THEN conjunct2, THEN conjunct1] .
  have 4: "Optional_of (VOptional AbsentOptional) = AbsentOptional"
    using a [THEN conjunct2, THEN conjunct2, THEN conjunct1] .
  from 1 2 3 4 show ?thesis by simp
qed

text \<open>
  The claim as stated, for every non-null value, fails at an absent Optional: it is not
  null-equivalent, and \<^verbatim>\<open>Optional.of\<close> returns it, which is not present.
\<close>

theorem Optional_of_nonnull_counterexample:
  "\<not> eq_null (VOptional AbsentOptional)
   \<and> \<not> isPresent (Optional_of (VOptional AbsentOptional))
   \<and> get (Optional_of (VOptional AbsentOptional)) \<noteq> Inr (VOptional AbsentOptional)"
  by simp

section \<open>map\<close>

text \<open>
  C2. On a present optional, \<^verbatim>\<open>map\<close> applies the transform to the held value and
  classifies what it returns through \<^verbatim>\<open>Optional.of\<close>; a transform that returns a
  null-equivalent value therefore gives an absent optional, and a throw of the transform
  propagates. In particular \<^verbatim>\<open>Optional.of(v).map(() => null)\<close> is absent, for every
  \<open>v\<close>.
\<close>

theorem map_reclassifies:
  "(transform value s = (Inr x, s') \<longrightarrow>
      Optional_map (PresentOptional value) transform s = (Inr (Optional_of x), s')
      \<and> (eq_null x \<longrightarrow>
           Optional_map (PresentOptional value) transform s = (Inr AbsentOptional, s')))
   \<and> (transform value s = (Inl e, s') \<longrightarrow>
      Optional_map (PresentOptional value) transform s = (Inl e, s'))
   \<and> Optional_map (Optional_of v) (\<lambda>_. returns VNull) s = (Inr AbsentOptional, s)"
proof -
  have "eq_null x \<Longrightarrow> Optional_of x = AbsentOptional"
    by (cases x) simp_all
  moreover have "Optional_map (Optional_of v) (\<lambda>_. returns VNull) s = (Inr AbsentOptional, s)"
    by (cases "Optional_of v") (simp_all add: returns_def)
  ultimately show ?thesis
    by (simp add: returns_def)
qed

theorem map_reclassifies_witness:
  "recording (\<lambda>_. VNull) (VNum 5) [] = (Inr VNull, [VNum 5]) \<and> eq_null VNull
   \<and> Optional_map (PresentOptional (VNum 5)) (recording (\<lambda>_. VNull)) []
       = (Inr AbsentOptional, [VNum 5])
   \<and> throws (VStr ''boom'') () = (Inl (VStr ''boom''), ())
   \<and> Optional_map (PresentOptional (VNum 5)) (\<lambda>_. throws (VStr ''boom'')) ()
       = (Inl (VStr ''boom''), ())"
proof -
  note a = map_reclassifies [of "recording (\<lambda>_. VNull)" "VNum 5" "[]" VNull "[VNum 5]"
      VNull VNull]
  note b = map_reclassifies [of "\<lambda>_. throws (VStr ''boom'')" "VNum 5" "()" VNull "()"
      "VStr ''boom''" VNull]
  have 1: "recording (\<lambda>_. VNull) (VNum 5) [] = (Inr VNull, [VNum 5])"
    by (simp add: recording_def)
  have 2: "throws (VStr ''boom'') () = (Inl (VStr ''boom''), ())"
    by (simp add: throws_def)
  from a [THEN conjunct1, rule_format, OF 1]
  have 3: "Optional_map (PresentOptional (VNum 5)) (recording (\<lambda>_. VNull)) []
       = (Inr AbsentOptional, [VNum 5])"
    by simp
  from b [THEN conjunct2, THEN conjunct1, rule_format, OF 2]
  have 4: "Optional_map (PresentOptional (VNum 5)) (\<lambda>_. throws (VStr ''boom'')) ()
       = (Inl (VStr ''boom''), ())"
    by simp
  from 1 2 3 4 show ?thesis by simp
qed

text \<open>
  C3 (as amended). The functor law: for every value \<open>v\<close> that is not an Optional
  instance and all transforms \<open>f\<close> and \<open>g\<close> such that \<open>f\<close> applied to \<open>v\<close> returns a
  value that is neither null-equivalent nor an Optional instance, and \<open>g\<close> applied to
  that value returns a value that is not null-equivalent,
  \<^verbatim>\<open>Optional.of(v).map(f).map(g)\<close> equals \<^verbatim>\<open>Optional.of(v).map(x => g(f(x)))\<close>,
  in the result and in the state the transforms leave.
\<close>

theorem map_functor_law:
  assumes "\<not> instanceof_Optional v"
    and "f v s = (Inr y, s1)" and "\<not> eq_null y" and "\<not> instanceof_Optional y"
    and "g y s1 = (Inr z, s2)" and "\<not> eq_null z"
  shows "andThen (Optional_map (Optional_of v) f) (\<lambda>opt. Optional_map opt g) s
       = Optional_map (Optional_of v) (\<lambda>x. andThen (f x) g) s"
proof (cases "eq_null v")
  case True
  then have "Optional_of v = AbsentOptional" by (cases v) simp_all
  then show ?thesis by simp
next
  case False
  with assms(1) have v: "Optional_of v = PresentOptional v" by (cases v) simp_all
  from assms(3,4) have y: "Optional_of y = PresentOptional y" by (cases y) simp_all
  show ?thesis using assms(2,5) by (simp add: v y returns_def)
qed

theorem map_functor_law_witness:
  "\<not> instanceof_Optional (VNum 2) \<and> \<not> eq_null (VNum 3) \<and> \<not> instanceof_Optional (VNum 3)
   \<and> \<not> eq_null (VNum 6)
   \<and> andThen (Optional_map (Optional_of (VNum 2)) (recording (\<lambda>_. VNum 3)))
        (\<lambda>opt. Optional_map opt (recording (\<lambda>_. VNum 6))) []
     = Optional_map (Optional_of (VNum 2))
        (\<lambda>x. andThen (recording (\<lambda>_. VNum 3) x) (recording (\<lambda>_. VNum 6))) []
   \<and> Optional_map (Optional_of (VNum 2))
        (\<lambda>x. andThen (recording (\<lambda>_. VNum 3) x) (recording (\<lambda>_. VNum 6))) []
     = (Inr (PresentOptional (VNum 6)), [VNum 2, VNum 3])"
  using map_functor_law [of "VNum 2" "recording (\<lambda>_. VNum 3)" "[]" "VNum 3" "[VNum 2]"
      "recording (\<lambda>_. VNum 6)" "VNum 6" "[VNum 2, VNum 3]"]
  by (simp add: recording_def returns_def)

text \<open>
  The law as stated fails where \<open>f\<close> returns an Optional, which is not null-equivalent:
  with \<^verbatim>\<open>f = () => Optional.empty()\<close> and \<^verbatim>\<open>g = () => 1\<close>, the chained maps give an
  absent optional and the map of the composition a present one.
\<close>

theorem map_functor_law_counterexample:
  "\<not> eq_null (VOptional AbsentOptional) \<and> \<not> eq_null (VNum 1)
   \<and> (\<lambda>x. returns (VOptional AbsentOptional)) (VNum 1) () = (Inr (VOptional AbsentOptional), ())
   \<and> (\<lambda>x. returns (VNum 1)) (VOptional AbsentOptional) () = (Inr (VNum 1), ())
   \<and> andThen (Optional_map (Optional_of (VNum 1)) (\<lambda>x. returns (VOptional AbsentOptional)))
        (\<lambda>opt. Optional_map opt (\<lambda>x. returns (VNum 1))) ()
      = (Inr AbsentOptional, ())
   \<and> Optional_map (Optional_of (VNum 1))
        (\<lambda>x. andThen ((\<lambda>x. returns (VOptional AbsentOptional)) x) (\<lambda>x. returns (VNum 1))) ()
      = (Inr (PresentOptional (VNum 1)), ())"
  by (simp add: returns_def)

section \<open>flatMap and flatMapAsync\<close>

text \<open>
  C4. On a present optional, \<^verbatim>\<open>flatMap\<close> is the transform applied to the held value:
  its result is returned as it is, with no wrapping and no classification (so even a
  present optional holding null comes back unchanged). On an absent optional it returns
  an absent optional and does not invoke the transform.
\<close>

theorem flatMap_joins:
  "Optional_flatMap (PresentOptional value) transform s = transform value s
   \<and> Optional_flatMap (PresentOptional value) (\<lambda>x. returns (PresentOptional VNull)) s
       = (Inr (PresentOptional VNull), s)
   \<and> Optional_flatMap AbsentOptional transform s = (Inr AbsentOptional, s)
   \<and> Optional_flatMap AbsentOptional (recording h) calls = (Inr AbsentOptional, calls)"
  by (simp add: returns_def)

text \<open>
  C5. On a present optional, \<^verbatim>\<open>flatMapAsync\<close> invokes the transform once and calls
  \<^verbatim>\<open>then\<close> with the callback \<^verbatim>\<open>v => v.orElse(null)\<close> on what it returns, be it a
  pending computation of an Optional or an AsyncOptional, and lifts the outcome with
  \<^verbatim>\<open>fromPromise\<close>: a computation resolving to a present optional becomes one resolving
  to the held value, one resolving to an absent optional becomes one resolving to null,
  a rejection stays a rejection. On an absent optional it returns a new
  AbsentAsyncOptional and does not invoke the transform.
\<close>

theorem flatMapAsync_normalizes:
  "flatMapAsync A AbsentOptional transform s = (Inr (newAbsentAsyncOptional A), s)
   \<and> snd (flatMapAsync A (PresentOptional value) transform s) = snd (transform value s)
   \<and> (transform value s = (Inr (APromise (Resolved (PresentOptional x))), s') \<longrightarrow>
        flatMapAsync A (PresentOptional value) transform s
          = (Inr (fromPromise A (Resolved x)), s'))
   \<and> (transform value s = (Inr (APromise (Resolved AbsentOptional)), s') \<longrightarrow>
        flatMapAsync A (PresentOptional value) transform s
          = (Inr (fromPromise A (Resolved VNull)), s'))
   \<and> (transform value s = (Inr (APromise (Rejected e)), s') \<longrightarrow>
        flatMapAsync A (PresentOptional value) transform s
          = (Inr (fromPromise A (Rejected e)), s'))
   \<and> (transform value s = (Inr (AnAsyncOptional a), s') \<longrightarrow>
        flatMapAsync A (PresentOptional value) transform s
          = (Inr (fromPromise A (thenAsyncOptional A a (\<lambda>v. orElse v VNull))), s'))
   \<and> (transform value s = (Inl e', s') \<longrightarrow>
        flatMapAsync A (PresentOptional value) transform s = (Inl e', s'))"
  by (simp add: returns_def)

theorem flatMapAsync_normalizes_witness:
  "recording (\<lambda>x. APromise (Resolved (Optional_of x))) (VNum 5) []
     = (Inr (APromise (Resolved (PresentOptional (VNum 5)))), [VNum 5])
   \<and> flatMapAsync
        (AsyncOptionalModule (\<lambda>p. p) (Resolved VNull)
           (\<lambda>a k. Promise_then a (\<lambda>v. k (Optional_of v))))
        (PresentOptional (VNum 5)) (recording (\<lambda>x. APromise (Resolved (Optional_of x)))) []
     = (Inr (Resolved (VNum 5)), [VNum 5])
   \<and> recording (\<lambda>x. AnAsyncOptional (Resolved VNull)) (VNum 5) []
     = (Inr (AnAsyncOptional (Resolved VNull)), [VNum 5])
   \<and> flatMapAsync
        (AsyncOptionalModule (\<lambda>p. p) (Resolved VNull)
           (\<lambda>a k. Promise_then a (\<lambda>v. k (Optional_of v))))
        (PresentOptional (VNum 5)) (recording (\<lambda>x. AnAsyncOptional (Resolved VNull))) []
     = (Inr (Resolved VNull), [VNum 5])"
proof -
  let ?A = "(AsyncOptionalModule (\<lambda>p. p) (Resolved VNull)
           (\<lambda>a k. Promise_then a (\<lambda>v. k (Optional_of v))))"
  let ?f = "recording (\<lambda>x. APromise (Resolved (Optional_of x)))"
  let ?g = "recording (\<lambda>x. AnAsyncOptional (Resolved VNull))"
  note a = flatMapAsync_normalizes [of ?A ?f "[]" "VNum 5" "VNum 5" "[VNum 5]" VNull
      "Resolved VNull" VNull]
  note b = flatMapAsync_normalizes [of ?A ?g "[]" "VNum 5" "VNum 5" "[VNum 5]" VNull
      "Resolved VNull" VNull]
  have 1: "?f (VNum 5) [] = (Inr (APromise (Resolved (PresentOptional (VNum 5)))), [VNum 5])"
    by (simp add: recording_def)
  have 2: "?g (VNum 5) [] = (Inr (AnAsyncOptional (Resolved VNull)), [VNum 5])"
    by (simp add: recording_def)
  from a [THEN conjunct2, THEN conjunct2, THEN conjunct1, rule_format, OF 1]
  have 3: "flatMapAsync ?A (PresentOptional (VNum 5)) ?f [] = (Inr (Resolved (VNum 5)), [VNum 5])"
    by simp
  from b [THEN conjunct2, THEN conjunct2, THEN conjunct2, THEN conjunct2, THEN conjunct2,
      THEN conjunct1, rule_format, OF 2]
  have 4: "flatMapAsync ?A (PresentOptional (VNum 5)) ?g [] = (Inr (Resolved VNull), [VNum 5])"
    by simp
  from 1 2 3 4 show ?thesis by simp
qed

section \<open>The invariant of present optionals\<close>

lemma Present_invariant_of: "respects_invariant v \<Longrightarrow> Present_invariant (Optional_of v)"
  by (cases v) simp_all

lemma Present_invariant_filter:
  "Present_invariant opt \<Longrightarrow> Optional_filter opt p s = (Inr r, s') \<Longrightarrow> Present_invariant r"
  by (cases opt) (auto simp: andThen_def returns_def split: prod.splits sum.splits if_splits)

lemma Present_invariant_map:
  assumes "\<And>x y t. opt = PresentOptional x \<Longrightarrow> f x s = (Inr y, t) \<Longrightarrow> respects_invariant y"
    and "Optional_map opt f s = (Inr r, s')"
  shows "Present_invariant r"
proof (cases opt)
  case (PresentOptional x)
  with assms(2) obtain y where "f x s = (Inr y, s')" and "r = Optional_of y"
    by (auto simp: andThen_def returns_def split: prod.splits sum.splits)
  with assms(1) PresentOptional show ?thesis
    by (simp add: Present_invariant_of)
next
  case AbsentOptional
  with assms(2) show ?thesis by (simp add: returns_def)
qed

text \<open>
  C6 (as amended). The optionals that \<^verbatim>\<open>of\<close>, \<^verbatim>\<open>empty\<close>, \<^verbatim>\<open>filter\<close> and \<^verbatim>\<open>map\<close>
  produce hold no null-equivalent value, provided that every Optional instance handed to
  \<^verbatim>\<open>of\<close> or returned by the transform of \<^verbatim>\<open>map\<close>, and the receiver of
  \<^verbatim>\<open>filter\<close>, itself holds no null-equivalent value: \<^verbatim>\<open>of\<close> classifies every other
  value (a transform may return null, which gives an absent optional) and returns an
  Optional instance as it is, unchecked.
\<close>

theorem Present_invariant_preserved:
  "(respects_invariant v \<longrightarrow> Present_invariant (Optional_of v))
   \<and> Present_invariant Optional_empty
   \<and> (Present_invariant opt \<and> Optional_filter opt p s = (Inr r, s') \<longrightarrow> Present_invariant r)
   \<and> ((\<forall>x y t. opt = PresentOptional x \<and> f x s = (Inr y, t) \<longrightarrow> respects_invariant y)
        \<and> Optional_map opt f s = (Inr r', s'') \<longrightarrow> Present_invariant r')"
  using Present_invariant_of [of v] Present_invariant_filter [of opt p s r s']
    Present_invariant_map [of opt f s r' s'']
  by (simp add: Optional_empty_def) blast

theorem Present_invariant_preserved_witness:
  "respects_invariant (VNum 5) \<and> Present_invariant (Optional_of (VNum 5))
   \<and> respects_invariant VNull \<and> Present_invariant (Optional_of VNull)
   \<and> Optional_filter (PresentOptional (VNum 5)) (recording (\<lambda>x. x = VNum 5)) []
        = (Inr (PresentOptional (VNum 5)), [VNum 5])
   \<and> Present_invariant (PresentOptional (VNum 5))
   \<and> Optional_map (PresentOptional (VNum 5)) (recording (\<lambda>x. VNull)) []
        = (Inr AbsentOptional, [VNum 5])
   \<and> Present_invariant AbsentOptional"
  using Present_invariant_preserved [of "VNum 5" "PresentOptional (VNum 5)"
      "recording (\<lambda>x. x = VNum 5)" "[]" "PresentOptional (VNum 5)" "[VNum 5]"
      "recording (\<lambda>x. VNull)" AbsentOptional "[VNum 5]"]
    Present_invariant_preserved [of VNull AbsentOptional "recording (\<lambda>x. True)" "[]"
      AbsentOptional "[]" "recording (\<lambda>x. VNull)" AbsentOptional "[]"]
  by (simp add: recording_def returns_def)

text \<open>
  The claim as stated, for any transform, fails at a transform that returns an Optional
  instance built with the public constructor of \<^verbatim>\<open>PresentOptional\<close>:
  \<^verbatim>\<open>Optional.of(5).map(() => new PresentOptional(null))\<close> is a present optional holding
  null, and so is \<^verbatim>\<open>Optional.of(new PresentOptional(null))\<close>.
\<close>

theorem Present_invariant_counterexample:
  "Optional_map (Optional_of (VNum 5)) (\<lambda>x. returns (VOptional (PresentOptional VNull))) ()
     = (Inr (PresentOptional VNull), ())
   \<and> Optional_of (VOptional (PresentOptional VNull)) = PresentOptional VNull
   \<and> isPresent (PresentOptional VNull) \<and> get (PresentOptional VNull) = Inr VNull
   \<and> eq_null VNull \<and> \<not> Present_invariant (PresentOptional VNull)"
  by (simp add: returns_def)

section \<open>Invocation of the callbacks\<close>

text \<open>
  C7. On an absent optional, \<^verbatim>\<open>map\<close>, \<^verbatim>\<open>flatMap\<close> and \<^verbatim>\<open>filter\<close> return an
  absent optional and leave the state as it was, whatever the transform: it is not
  invoked (a recording stub records no call). On a present optional each of them leaves
  the state that one invocation of the transform on the held value leaves: the transform
  is invoked exactly once, within the call (a recording stub records one call, with the
  held value).
\<close>

theorem transforms_invoked:
  "Optional_map AbsentOptional f s = (Inr AbsentOptional, s)
   \<and> Optional_flatMap AbsentOptional h s = (Inr AbsentOptional, s)
   \<and> Optional_filter AbsentOptional p s = (Inr AbsentOptional, s)
   \<and> snd (Optional_map AbsentOptional (recording f') calls) = calls
   \<and> snd (Optional_flatMap AbsentOptional (recording h') calls) = calls
   \<and> snd (Optional_filter AbsentOptional (recording p') calls) = calls
   \<and> snd (Optional_map (PresentOptional value) f s) = snd (f value s)
   \<and> snd (Optional_flatMap (PresentOptional value) h s) = snd (h value s)
   \<and> snd (Optional_filter (PresentOptional value) p s) = snd (p value s)
   \<and> snd (Optional_map (PresentOptional value) (recording f') calls) = calls @ [value]
   \<and> snd (Optional_flatMap (PresentOptional value) (recording h') calls) = calls @ [value]
   \<and> snd (Optional_filter (PresentOptional value) (recording p') calls) = calls @ [value]"
  by (simp add: returns_def recording_def)

section \<open>orThrow\<close>

text \<open>
  C8. On a present optional \<^verbatim>\<open>orThrow\<close> returns the held value and leaves the state
  as it was: the supplier is not invoked. On an absent optional it leaves the state that
  one invocation of the supplier leaves; it throws the value the supplier returns when
  that is an instance of Error, throws a TypeError when the supplier returns anything
  else, and propagates what the supplier throws. So whenever \<^verbatim>\<open>orThrow\<close> returns, the
  optional is present and the result is its value.
\<close>

theorem orThrow_contract:
  "orThrow (PresentOptional value) errThrower s = (Inr value, s)
   \<and> snd (orThrow AbsentOptional errThrower s) = snd (errThrower s)
   \<and> (errThrower s = (Inr err, s') \<and> instanceof_Error err \<longrightarrow>
        orThrow AbsentOptional errThrower s = (Inl err, s'))
   \<and> (errThrower s = (Inr err, s') \<and> \<not> instanceof_Error err \<longrightarrow>
        orThrow AbsentOptional errThrower s = (Inl (VError TypeError orThrow_message), s'))
   \<and> (errThrower s = (Inl e, s') \<longrightarrow> orThrow AbsentOptional errThrower s = (Inl e, s'))
   \<and> (\<forall>r t. orThrow opt errThrower s = (Inr r, t) \<longrightarrow> opt = PresentOptional r \<and> t = s)"
proof -
  have "\<forall>r t. orThrow opt errThrower s = (Inr r, t) \<longrightarrow> opt = PresentOptional r \<and> t = s"
    by (cases opt)
      (auto simp: andThen_def returns_def throws_def split: prod.splits sum.splits if_splits)
  then show ?thesis
    by (simp add: returns_def throws_def)
qed

theorem orThrow_contract_witness:
  "instanceof_Error (VError Error ''e'')
   \<and> orThrow AbsentOptional (\<lambda>n. (Inr (VError Error ''e''), Suc n)) (0::nat)
       = (Inl (VError Error ''e''), Suc 0)
   \<and> \<not> instanceof_Error (VStr ''e'')
   \<and> orThrow AbsentOptional (\<lambda>n. (Inr (VStr ''e''), Suc n)) (0::nat)
       = (Inl (VError TypeError orThrow_message), Suc 0)
   \<and> orThrow AbsentOptional (\<lambda>n. (Inl (VStr ''thrown''), Suc n)) (0::nat)
       = (Inl (VStr ''thrown''), Suc 0)
   \<and> orThrow (PresentOptional (VNum 5)) (\<lambda>n. (Inr (VError Error ''e''), Suc n)) (0::nat)
       = (Inr (VNum 5), 0)"
proof -
  note a = orThrow_contract [of "VNum 5" "\<lambda>n. (Inr (VError Error ''e''), Suc n)" "0::nat"
      "VError Error ''e''" "Suc 0" VNull "PresentOptional (VNum 5)"]
  note b = orThrow_contract [of VNull "\<lambda>n. (Inr (VStr ''e''), Suc n)" "0::nat"
      "VStr ''e''" "Suc 0" VNull AbsentOptional]
  note c = orThrow_contract [of VNull "\<lambda>n. (Inl (VStr ''thrown''), Suc n)" "0::nat"
      VNull "Suc 0" "VStr ''thrown''" AbsentOptional]
  have 1: "orThrow (PresentOptional (VNum 5)) (\<lambda>n. (Inr (VError Error ''e''), Suc n)) (0::nat)
       = (Inr (VNum 5), 0)"
    using a [THEN conjunct1] .
  have 2: "orThrow AbsentOptional (\<lambda>n. (Inr (VError Error ''e''), Suc n)) (0::nat)
       = (Inl (VError Error ''e''), Suc 0)"
    using a [THEN conjunct2, THEN conjunct2, THEN conjunct1] by simp
  have 3: "orThrow AbsentOptional (\<lambda>n. (Inr (VStr ''e''), Suc n)) (0::nat)
       = (Inl (VError TypeError orThrow_message), Suc 0)"
    using b [THEN conjunct2, THEN conjunct2, THEN conjunct2, THEN conjunct1] by simp
  have 4: "orThrow AbsentOptional (\<lambda>n. (Inl (VStr ''thrown''), Suc n)) (0::nat)
       = (Inl (VStr ''thrown''), Suc 0)"
    using c [THEN conjunct2, THEN conjunct2, THEN conjunct2, THEN conjunct2, THEN conjunct1]
    by simp
  show ?thesis using 1 2 3 4 by simp
qed

section \<open>Serialization to JSON\<close>

text \<open>
  C9. \<^verbatim>\<open>asJSON()\<close> and \<^verbatim>\<open>toJSON(key)\<close> return the held value on a present optional
  and null, which is not undefined, on an absent one; \<^verbatim>\<open>Optional.of(5).asJSON()\<close> is 5
  and \<^verbatim>\<open>Optional.empty().asJSON()\<close> is null.
\<close>

theorem Optional_JSON:
  "asJSON (PresentOptional value) = value
   \<and> toJSON (PresentOptional value) key = value
   \<and> asJSON AbsentOptional = VNull
   \<and> toJSON AbsentOptional key = VNull
   \<and> asJSON AbsentOptional \<noteq> VUndefined
   \<and> toJSON AbsentOptional key \<noteq> VUndefined
   \<and> asJSON (Optional_of (VNum 5)) = VNum 5
   \<and> toJSON (Optional_of (VNum 5)) key = VNum 5
   \<and> asJSON Optional_empty = VNull
   \<and> toJSON Optional_empty key = VNull"
  by (simp add: Optional_empty_def)

section \<open>The frame of mapOut\<close>

text \<open>
  One round of the loop, seen at an object \<open>a\<close> that the mapper of the mapping leaves
  as it is: the target gets the one field that the mapping names, any other object is
  unchanged.
\<close>

lemma performMapOut_each_writes:
  assumes "\<forall>f\<in>set (mappers m). \<forall>v h0 u0. fst (snd (f v (h0, u0))) a = h0 a"
    and "performMapOut_each inst target m (h, u) = (Inr x, (h', u'))"
  shows "\<exists>v. h' a = (if a = target then (h a)(targetField m \<mapsto> v) else h a)"
proof (cases m)
  case (SameTypeField k)
  with assms(2) show ?thesis
    by (auto simp: performMapOut_each_def andThen_def readProp_def assignProp_def setProp_def
        split: prod.splits sum.splits)
next
  case (MapDirect k f)
  with assms(2) obtain w hm um where
    call: "f (getProp (h inst) k) (h, u) = (Inr w, (hm, um))" and
    h': "h' = setProp hm target k w"
    by (auto simp: performMapOut_each_def andThen_def readProp_def assignProp_def
        split: prod.splits sum.splits)
  from assms(1) MapDirect have "fst (snd (f (getProp (h inst) k) (h, u))) a = h a"
    by simp
  with call have "hm a = h a" by simp
  with h' MapDirect show ?thesis by (auto simp: setProp_def)
next
  case (MapIndirect k t f)
  with assms(2) obtain w hm um where
    call: "f (getProp (h inst) k) (h, u) = (Inr w, (hm, um))" and
    h': "h' = setProp hm target t w"
    by (auto simp: performMapOut_each_def andThen_def readProp_def assignProp_def
        split: prod.splits sum.splits)
  from assms(1) MapIndirect have "fst (snd (f (getProp (h inst) k) (h, u))) a = h a"
    by simp
  with call have "hm a = h a" by simp
  with h' MapIndirect show ?thesis by (auto simp: setProp_def)
qed

lemma forEach_writes:
  assumes "\<forall>m\<in>set ms. \<forall>f\<in>set (mappers m). \<forall>v h0 u0. fst (snd (f v (h0, u0))) a = h0 a"
    and "forEach ms (performMapOut_each inst target) (h, u) = (Inr x, (h', u'))"
  shows "(a \<noteq> target \<longrightarrow> h' a = h a)
       \<and> (a = target \<longrightarrow>
            (\<forall>k. k \<notin> targetField ` set ms \<longrightarrow> h' a k = h a k)
            \<and> dom (h' a) = dom (h a) \<union> targetField ` set ms)"
  using assms
proof (induction ms arbitrary: h u)
  case Nil
  then show ?case by (simp add: returns_def)
next
  case (Cons m ms)
  from Cons.prems(2) obtain h1 u1 where
    step: "performMapOut_each inst target m (h, u) = (Inr (), (h1, u1))" and
    rest: "forEach ms (performMapOut_each inst target) (h1, u1) = (Inr x, (h', u'))"
    by (auto simp: andThen_def split: prod.splits sum.splits)
  from Cons.prems(1) have
    m: "\<forall>f\<in>set (mappers m). \<forall>v h0 u0. fst (snd (f v (h0, u0))) a = h0 a" and
    ms: "\<forall>m\<in>set ms. \<forall>f\<in>set (mappers m). \<forall>v h0 u0. fst (snd (f v (h0, u0))) a = h0 a"
    by simp_all
  from performMapOut_each_writes [OF m step] obtain v where
    h1: "h1 a = (if a = target then (h a)(targetField m \<mapsto> v) else h a)" by blast
  from Cons.IH [OF ms rest] h1 show ?case
    by (cases "a = target") auto
qed

text \<open>
  C10 (as amended). Provided that the mapper functions of the listed mappings (the
  \<^verbatim>\<open>map\<close> of a direct map, the \<^verbatim>\<open>with\<close> of an indirect map) do not themselves
  modify the target object: when \<^verbatim>\<open>mapOut\<close> returns, it returns the target it was
  given; the target has, besides the properties it had, exactly the fields that the
  mappings name (the name itself for a string, \<^verbatim>\<open>field\<close> for a direct map, \<^verbatim>\<open>to\<close>
  for an indirect map); every property of the target that no mapping names has the value
  it had; and each round of the loop is one assignment to the field that its mapping
  names. Any other object that the mappers do not modify is unchanged.
\<close>

theorem mapOut_frame:
  assumes "\<forall>m\<in>set fields. \<forall>f\<in>set (mappers m). \<forall>v h0 u0.
             fst (snd (f v (h0, u0))) target = h0 target"
    and "mapOut this target fields (h, u) = (Inr r, (h', u'))"
  shows "r = target
       \<and> (\<forall>k. k \<notin> targetField ` set fields \<longrightarrow> h' target k = h target k)
       \<and> dom (h' target) = dom (h target) \<union> targetField ` set fields
       \<and> (\<forall>m\<in>set fields. \<forall>h0 u0 h1 u1.
             performMapOut_each (the_instance this) target m (h0, u0) = (Inr (), (h1, u1)) \<longrightarrow>
             (\<exists>v. h1 target = (h0 target)(targetField m \<mapsto> v)))
       \<and> (\<forall>a. a \<noteq> target
             \<and> (\<forall>m\<in>set fields. \<forall>f\<in>set (mappers m). \<forall>v h0 u0.
                   fst (snd (f v (h0, u0))) a = h0 a)
             \<longrightarrow> h' a = h a)"
proof -
  from assms(2) obtain x where
    loop: "forEach fields (performMapOut_each (the_instance this) target) (h, u)
             = (Inr x, (h', u'))" and r: "r = target"
    by (auto simp: mapOut_def performMapOut_def andThen_def returns_def
        split: prod.splits sum.splits)
  have each: "\<forall>m\<in>set fields. \<forall>h0 u0 h1 u1.
      performMapOut_each (the_instance this) target m (h0, u0) = (Inr (), (h1, u1)) \<longrightarrow>
      (\<exists>v. h1 target = (h0 target)(targetField m \<mapsto> v))"
  proof (intro ballI allI impI)
    fix m h0 u0 h1 u1
    assume m: "m \<in> set fields"
      and step: "performMapOut_each (the_instance this) target m (h0, u0) = (Inr (), (h1, u1))"
    from assms(1) m have
      "\<forall>f\<in>set (mappers m). \<forall>v h0 u0. fst (snd (f v (h0, u0))) target = h0 target"
      by blast
    from performMapOut_each_writes [OF this step]
    show "\<exists>v. h1 target = (h0 target)(targetField m \<mapsto> v)" by simp
  qed
  have others: "\<forall>a. a \<noteq> target
             \<and> (\<forall>m\<in>set fields. \<forall>f\<in>set (mappers m). \<forall>v h0 u0.
                   fst (snd (f v (h0, u0))) a = h0 a)
             \<longrightarrow> h' a = h a"
  proof (intro allI impI)
    fix a
    assume a: "a \<noteq> target
             \<and> (\<forall>m\<in>set fields. \<forall>f\<in>set (mappers m). \<forall>v h0 u0.
                   fst (snd (f v (h0, u0))) a = h0 a)"
    then have "\<forall>m\<in>set fields. \<forall>f\<in>set (mappers m). \<forall>v h0 u0.
                   fst (snd (f v (h0, u0))) a = h0 a" ..
    from forEach_writes [OF this loop] a show "h' a = h a" by simp
  qed
  from forEach_writes [OF assms(1) loop] have
    "(\<forall>k. k \<notin> targetField ` set fields \<longrightarrow> h' target k = h target k)
     \<and> dom (h' target) = dom (h target) \<union> targetField ` set fields"
    by simp
  with r each others show ?thesis by blast
qed

theorem mapOut_frame_witness:
  "mapOut (EntitySerializer 0) 1
     [SameTypeField ''a'', MapDirect ''b'' (\<lambda>v. returns (VNum 7)),
      MapIndirect ''a'' ''c'' (\<lambda>v. returns v)]
     ((\<lambda>_. Map.empty)(0 := [''a'' \<mapsto> VNum 1, ''b'' \<mapsto> VNum 2],
                         1 := [''z'' \<mapsto> VStr ''keep'', ''b'' \<mapsto> VNull]), ())
   = (Inr 1,
      ((\<lambda>_. Map.empty)(0 := [''a'' \<mapsto> VNum 1, ''b'' \<mapsto> VNum 2],
                         1 := [''z'' \<mapsto> VStr ''keep'', ''b'' \<mapsto> VNum 7,
                               ''a'' \<mapsto> VNum 1, ''c'' \<mapsto> VNum 1]),
       ()))
   \<and> ''z'' \<notin> targetField ` set [SameTypeField ''a'', MapDirect ''b'' (\<lambda>v. returns (VNum 7)),
      MapIndirect ''a'' ''c'' (\<lambda>v. returns v)]
   \<and> ((\<lambda>_. Map.empty)(0 := [''a'' \<mapsto> VNum 1, ''b'' \<mapsto> VNum 2],
                         1 := [''z'' \<mapsto> VStr ''keep'', ''b'' \<mapsto> VNum 7,
                               ''a'' \<mapsto> VNum 1, ''c'' \<mapsto> VNum 1])) 1 ''z''
       = Some (VStr ''keep'')"
proof -
  let ?fields = "[SameTypeField ''a'', MapDirect ''b'' (\<lambda>v. returns (VNum 7)),
      MapIndirect ''a'' ''c'' (\<lambda>v. returns v)] :: unit MapOutArg list"
  let ?h = "(\<lambda>_. Map.empty)(0 := [''a'' \<mapsto> VNum 1, ''b'' \<mapsto> VNum 2],
                         1 := [''z'' \<mapsto> VStr ''keep'', ''b'' \<mapsto> VNull])"
  let ?h' = "(\<lambda>_. Map.empty)(0 := [''a'' \<mapsto> VNum 1, ''b'' \<mapsto> VNum 2],
                         1 := [''z'' \<mapsto> VStr ''keep'', ''b'' \<mapsto> VNum 7,
                               ''a'' \<mapsto> VNum 1, ''c'' \<mapsto> VNum 1])"
  have pure: "\<forall>m\<in>set ?fields. \<forall>f\<in>set (mappers m). \<forall>v h0 u0.
      fst (snd (f v (h0, u0))) (1::nat) = h0 1"
    by (simp add: returns_def)
  have run: "mapOut (EntitySerializer 0) 1 ?fields (?h, ()) = (Inr 1, (?h', ()))"
    by (simp add: mapOut_def performMapOut_def performMapOut_each_def andThen_def returns_def
        readProp_def assignProp_def getProp_def setProp_def fun_upd_twist)
  have out: "''z'' \<notin> targetField ` set ?fields" by simp
  note frame = mapOut_frame [OF pure run, THEN conjunct2, THEN conjunct1, rule_format, OF out]
  from frame have "?h' 1 ''z'' = Some (VStr ''keep'')" by simp
  with run out show ?thesis by simp
qed

text \<open>
  The claim as stated, for any mapper, fails at a mapper that writes the target: with
  \<^verbatim>\<open>{field: "b", map: v => { target.z = 9; return v; }}\<close> the property \<^verbatim>\<open>z\<close>, which
  no mapping names, changes.
\<close>

theorem mapOut_frame_counterexample:
  "mapOut (EntitySerializer 0) 1
     [MapDirect ''b'' (\<lambda>v. andThen (assignProp 1 ''z'' (VNum 9)) (\<lambda>_. returns v))]
     ((\<lambda>_. Map.empty)(0 := [''b'' \<mapsto> VNum 2], 1 := [''z'' \<mapsto> VStr ''keep'']), ())
   = (Inr 1,
      ((\<lambda>_. Map.empty)(0 := [''b'' \<mapsto> VNum 2], 1 := [''z'' \<mapsto> VNum 9, ''b'' \<mapsto> VNum 2]),
       ()))
   \<and> ''z'' \<notin> targetField `
        set [MapDirect ''b'' (\<lambda>v. andThen (assignProp 1 ''z'' (VNum 9)) (\<lambda>_. returns v))
              :: unit MapOutArg]
   \<and> ((\<lambda>_. Map.empty)(0 := [''b'' \<mapsto> VNum 2],
          1 := [''z'' \<mapsto> VNum 9, ''b'' \<mapsto> VNum 2])) (1::nat) ''z''
      \<noteq> ((\<lambda>_. Map.empty)(0 := [''b'' \<mapsto> VNum 2], 1 := [''z'' \<mapsto> VStr ''keep''])) (1::nat) ''z''"
  by (simp add: mapOut_def performMapOut_def performMapOut_each_def andThen_def returns_def
      readProp_def assignProp_def getProp_def setProp_def)

end
